theory Spec2Isabelle
  imports Complex_Main
begin

section \<open>Python values and built-ins used by \<open>gis/core/extract_data.py\<close>\<close>

text \<open>
  The extraction code is dynamically typed. The values it handles are \<open>None\<close>, booleans,
  integers, floats and strings. Floats are modelled by exact reals: representation error,
  infinities and NaN are outside this model. Strings are lists of 8-bit characters; the
  case mapping and the whitespace class are the ASCII ones.
\<close>

datatype pyval = PNone | PBool bool | PInt int | PFloat real | PStr string

datatype error = KeyError string | TypeError | ValueError | IndexError | EEException string

text \<open>Sequencing of a computation that may raise: the first exception wins.\<close>

definition then_err :: "error + 'a \<Rightarrow> ('a \<Rightarrow> error + 'b) \<Rightarrow> error + 'b" where
  "then_err m f = (case m of Inl e \<Rightarrow> Inl e | Inr v \<Rightarrow> f v)"

text \<open>Truth value testing, as \<open>if x\<close>, \<open>x and y\<close>, \<open>x or y\<close> do.\<close>

fun truthy :: "pyval \<Rightarrow> bool" where
  "truthy PNone = False"
| "truthy (PBool b) = b"
| "truthy (PInt i) = (i \<noteq> 0)"
| "truthy (PFloat r) = (r \<noteq> 0)"
| "truthy (PStr s) = (s \<noteq> [])"

text \<open>\<open>float(x)\<close>. Parsing a string is Python's own and is taken as a parameter.\<close>

fun py_float :: "(string \<Rightarrow> real option) \<Rightarrow> pyval \<Rightarrow> error + real" where
  "py_float parse PNone = Inl TypeError"
| "py_float parse (PBool b) = Inr (if b then 1 else 0)"
| "py_float parse (PInt i) = Inr (of_int i)"
| "py_float parse (PFloat r) = Inr r"
| "py_float parse (PStr s) = (case parse s of None \<Rightarrow> Inl ValueError | Some r \<Rightarrow> Inr r)"

text \<open>\<open>round(x)\<close> on a float: nearest integer, ties to the even one.\<close>

definition round_half_even :: "real \<Rightarrow> int" where
  "round_half_even x =
     (let f = \<lfloor>x\<rfloor>; d = x - of_int f
      in if d < 1 / 2 then f else if 1 / 2 < d then f + 1 else if even f then f else f + 1)"

text \<open>\<open>round(x, n)\<close> on a float, for \<open>n \<ge> 0\<close> decimals.\<close>

definition round_ndigits :: "nat \<Rightarrow> real \<Rightarrow> real" where
  "round_ndigits n x = of_int (round_half_even (x * 10 ^ n)) / 10 ^ n"

text \<open>\<open>int(round(x))\<close>: integers and booleans round to themselves.\<close>

fun py_int_round :: "pyval \<Rightarrow> error + pyval" where
  "py_int_round (PFloat r) = Inr (PInt (round_half_even r))"
| "py_int_round (PInt i) = Inr (PInt i)"
| "py_int_round (PBool b) = Inr (PInt (if b then 1 else 0))"
| "py_int_round v = Inl TypeError"

text \<open>\<open>round(x, n)\<close>: a float stays a float, an integer stays an integer.\<close>

fun py_round_n :: "nat \<Rightarrow> pyval \<Rightarrow> error + pyval" where
  "py_round_n n (PFloat r) = Inr (PFloat (round_ndigits n r))"
| "py_round_n n (PInt i) = Inr (PInt i)"
| "py_round_n n (PBool b) = Inr (PInt (if b then 1 else 0))"
| "py_round_n n v = Inl TypeError"

text \<open>\<open>x * k\<close> and \<open>x + k\<close> for a float \<open>x\<close> and a configured operand \<open>k\<close>.\<close>

fun py_number :: "pyval \<Rightarrow> error + real" where
  "py_number (PFloat r) = Inr r"
| "py_number (PInt i) = Inr (of_int i)"
| "py_number (PBool b) = Inr (if b then 1 else 0)"
| "py_number v = Inl TypeError"

definition float_mul :: "real \<Rightarrow> pyval \<Rightarrow> error + real" where
  "float_mul x k = then_err (py_number k) (\<lambda>r. Inr (x * r))"

definition float_add :: "real \<Rightarrow> pyval \<Rightarrow> error + real" where
  "float_add x k = then_err (py_number k) (\<lambda>r. Inr (x + r))"

subsection \<open>Decimal text of an integer, as an f-string prints it\<close>

definition digit_char :: "nat \<Rightarrow> char" where
  "digit_char d = char_of (48 + d)"

fun str_nat :: "nat \<Rightarrow> string" where
  "str_nat n = (if n < 10 then [digit_char n] else str_nat (n div 10) @ [digit_char (n mod 10)])"

declare str_nat.simps [simp del]

definition str_int :: "int \<Rightarrow> string" where
  "str_int i = (if i < 0 then CHR ''-'' # str_nat (nat (- i)) else str_nat (nat i))"

subsection \<open>String methods\<close>

definition is_space :: "char \<Rightarrow> bool" where
  "is_space c = (let n = (of_char c :: nat) in (9 \<le> n \<and> n \<le> 13) \<or> (28 \<le> n \<and> n \<le> 32))"

definition py_strip :: "string \<Rightarrow> string" where
  "py_strip s = rev (dropWhile is_space (rev (dropWhile is_space s)))"

definition lower_char :: "char \<Rightarrow> char" where
  "lower_char c = (let n = (of_char c :: nat) in if 65 \<le> n \<and> n \<le> 90 then char_of (n + 32) else c)"

definition py_lower :: "string \<Rightarrow> string" where
  "py_lower s = map lower_char s"

text \<open>
  \<open>s.split(sep)\<close> for a one-character separator. The result always has a first piece,
  so it is returned as that piece together with the list of the remaining ones, and
  \<open>s.split(sep)[0]\<close> is the first component.
\<close>

fun py_split :: "char \<Rightarrow> string \<Rightarrow> string \<times> string list" where
  "py_split sep [] = ([], [])"
| "py_split sep (c # cs) =
     (let (p, ps) = py_split sep cs
      in if c = sep then ([], p # ps) else (c # p, ps))"

text \<open>\<open>str(x)\<close>. The text of a float is Python's own and is taken as a parameter.\<close>

fun py_str :: "(real \<Rightarrow> string) \<Rightarrow> pyval \<Rightarrow> string" where
  "py_str repr PNone = ''None''"
| "py_str repr (PBool b) = (if b then ''True'' else ''False'')"
| "py_str repr (PInt i) = str_int i"
| "py_str repr (PFloat r) = repr r"
| "py_str repr (PStr s) = s"

section \<open>Texture names\<close>

text \<open>\<open>_normalize_texture_name\<close> (the leading underscore is not an Isabelle name).\<close>

definition normalize_texture_name :: "(real \<Rightarrow> string) \<Rightarrow> pyval \<Rightarrow> string option" where
  "normalize_texture_name repr v =
     (if v = PNone then None
      else
        let txt = py_lower (py_strip (py_str repr v))
        in if txt = [] then None
           else
             let txt = (if CHR '','' \<in> set txt then py_strip (fst (py_split CHR '','' txt)) else txt)
             in if txt = ''organic'' \<or> txt = ''variable'' then None else Some txt)"

text \<open>
  The normalisation as the specification words it: lower-case, trim, keep the trimmed text
  before the first comma, and send the tokens \<open>organic\<close> and \<open>variable\<close> to no
  classification; no value and text that is blank give no classification.
\<close>

definition normalize_spec :: "string option \<Rightarrow> string option" where
  "normalize_spec v =
     (case v of
        None \<Rightarrow> None
      | Some s \<Rightarrow>
          let t = py_strip (py_lower s)
          in if t = [] then None
             else
               let u = py_strip (takeWhile (\<lambda>c. c \<noteq> CHR '','') t)
               in if u \<in> {''organic'', ''variable''} then None else Some u)"

section \<open>Dataset configuration\<close>

text \<open>
  A dataset configuration is the dictionary that \<open>get_dataset_config\<close> returns. The
  module \<open>config/settings.py\<close> is an input of this development: the lookup function and
  \<open>TEXTURE_MAP\<close> are fields of the environment below.
\<close>

type_synonym config = "string \<rightharpoonup> pyval"

text \<open>\<open>config[key]\<close> and \<open>config.get(key, default)\<close>.\<close>

definition config_item :: "config \<Rightarrow> string \<Rightarrow> error + pyval" where
  "config_item config key = (case config key of None \<Rightarrow> Inl (KeyError key) | Some v \<Rightarrow> Inr v)"

definition config_get :: "config \<Rightarrow> string \<Rightarrow> pyval \<Rightarrow> pyval" where
  "config_get config key dflt = (case config key of None \<Rightarrow> dflt | Some v \<Rightarrow> v)"

section \<open>The Earth Engine client\<close>

text \<open>
  Collections, images, region reductions and feature queries are built on the client as
  descriptions of a computation; they are terms here, named after the client calls that
  build them. The points where the code looks at a result are functions of the
  environment, and each of them may raise.
\<close>

datatype reducer = Reducer_mean | Reducer_sum | Reducer_median | Reducer_min | Reducer_max

datatype ee_collection =
    ImageCollection pyval
  | FilterDate ee_collection string string
  | Collection_select ee_collection pyval

datatype ee_image =
    EE_Image pyval
  | Image_select ee_image pyval
  | Collection_sum ee_collection
  | Collection_mean ee_collection
  | Terrain_slope ee_image

text \<open>\<open>img.reduceRegion(reducer=, geometry=, scale=, maxPixels=)\<close>.\<close>

datatype 'g ee_dictionary = ReduceRegion ee_image reducer 'g pyval real

datatype 'g ee_features =
    FeatureCollection pyval
  | FilterBounds "'g ee_features" 'g

text \<open>
  A value handed back by the client is either a plain Python value or an object with a
  \<open>getInfo\<close> method.
\<close>

datatype 'n eeval = Local pyval | Computed 'n

record ('raw, 'g, 'ft, 'n) env =
  get_dataset_config :: "string \<Rightarrow> error + config"
  TEXTURE_MAP :: "string \<rightharpoonup> int"
  parse_geometry :: "'raw \<Rightarrow> error + 'g"
  dictionary_get :: "'g ee_dictionary \<Rightarrow> pyval \<Rightarrow> error + 'n eeval"
  features_first :: "'g ee_features \<Rightarrow> error + 'ft option"
  feature_get :: "'ft \<Rightarrow> pyval \<Rightarrow> error + 'n eeval"
  getInfo :: "'n \<Rightarrow> error + pyval"
  centroid_coordinates :: "'g \<Rightarrow> error + pyval list"
  float_of_str :: "string \<Rightarrow> real option"
  repr_float :: "real \<Rightarrow> string"

section \<open>Utility functions\<close>

text \<open>\<open>_ee_to_float\<close>\<close>

definition ee_to_float :: "('raw, 'g, 'ft, 'n) env \<Rightarrow> 'n eeval \<Rightarrow> error + real option" where
  "ee_to_float env v =
     (if v = Local PNone then Inr None
      else
        then_err (case v of Computed n \<Rightarrow> getInfo env n | Local p \<Rightarrow> Inr p) (\<lambda>v.
          if v \<noteq> PNone then then_err (py_float (float_of_str env) v) (\<lambda>r. Inr (Some r))
          else Inr None))"

text \<open>\<open>_apply_post_process\<close>\<close>

definition apply_post_process :: "pyval \<Rightarrow> pyval \<Rightarrow> error + pyval" where
  "apply_post_process v post_process =
     (if v = PNone then Inr PNone
      else if post_process = PStr ''round_int'' then py_int_round v
      else if post_process = PStr ''round_1dp'' then py_round_n 1 v
      else if post_process = PStr ''round_2dp'' then py_round_n 2 v
      else if post_process = PStr ''round_3dp'' then py_round_n 3 v
      else Inr v)"

text \<open>\<open>_get_reducer\<close>: a dictionary lookup with the mean reducer as default.\<close>

definition get_reducer :: "pyval \<Rightarrow> reducer" where
  "get_reducer reducer_name =
     (case map_of
        [(PStr ''mean'', Reducer_mean),
         (PStr ''sum'', Reducer_sum),
         (PStr ''median'', Reducer_median),
         (PStr ''min'', Reducer_min),
         (PStr ''max'', Reducer_max)] reducer_name of
        None \<Rightarrow> Reducer_mean
      | Some r \<Rightarrow> r)"

section \<open>Raster extraction\<close>

text \<open>
  The two branches of the \<open>Load dataset\<close> step of \<open>_extract_from_raster\<close>; each gives
  the image and the band name to read.
\<close>

definition yearly_image :: "config \<Rightarrow> int \<Rightarrow> error + ee_image \<times> pyval" where
  "yearly_image config year =
     then_err (config_item config ''asset_id'') (\<lambda>asset.
     let collection = ImageCollection asset;
         collection = FilterDate collection (str_int year @ ''-01-01'') (str_int year @ ''-12-31'')
     in then_err (config_item config ''band'') (\<lambda>band.
     let collection = Collection_select collection band;
         reducer_name = config_get config ''reducer'' (PStr ''mean'');
         img = (if reducer_name = PStr ''sum'' then Collection_sum collection
                else Collection_mean collection)
     in then_err (config_item config ''band'') (\<lambda>band_name. Inr (img, band_name))))"

definition single_image :: "config \<Rightarrow> error + ee_image \<times> pyval" where
  "single_image config =
     then_err (config_item config ''asset_id'') (\<lambda>asset.
     then_err (config_item config ''band'') (\<lambda>band.
     let img = Image_select (EE_Image asset) band
     in then_err (config_item config ''band'') (\<lambda>band_name. Inr (img, band_name))))"

text \<open>\<open>if year and config.get("temporal", False)\<close>\<close>

definition load_dataset :: "config \<Rightarrow> int option \<Rightarrow> error + ee_image \<times> pyval" where
  "load_dataset config year =
     (case year of
        None \<Rightarrow> single_image config
      | Some y \<Rightarrow>
          if y \<noteq> 0 \<and> truthy (config_get config ''temporal'' (PBool False))
          then yearly_image config y
          else single_image config)"

text \<open>\<open>_extract_from_raster\<close>\<close>

definition extract_from_raster ::
  "('raw, 'g, 'ft, 'n) env \<Rightarrow> 'raw \<Rightarrow> string \<Rightarrow> int option \<Rightarrow> error + pyval" where
  "extract_from_raster env geometry dataset_name year =
     then_err (get_dataset_config env dataset_name) (\<lambda>config.
     then_err (parse_geometry env geometry) (\<lambda>geom.
     then_err (load_dataset config year) (\<lambda>(img, band_name).
     let reducer = get_reducer (config_get config ''reducer'' (PStr ''mean''))
     in then_err (config_item config ''scale'') (\<lambda>scale.
     then_err (dictionary_get env (ReduceRegion img reducer geom scale 1000000000) band_name) (\<lambda>stat.
     then_err (ee_to_float env stat) (\<lambda>v.
     case v of
       None \<Rightarrow> Inr PNone
     | Some x \<Rightarrow>
         then_err (if ''scale_factor'' \<in> dom config
                   then then_err (config_item config ''scale_factor'') (float_mul x)
                   else Inr x) (\<lambda>x.
         then_err (if ''offset'' \<in> dom config
                   then then_err (config_item config ''offset'') (float_add x)
                   else Inr x) (\<lambda>x.
         then_err (if ''bias_correction'' \<in> dom config
                   then then_err (config_item config ''bias_correction'') (float_add x)
                   else Inr x) (\<lambda>x.
         if ''post_process'' \<in> dom config
         then then_err (config_item config ''post_process'') (apply_post_process (PFloat x))
         else Inr (PFloat x))))))))))"

section \<open>Vector extraction\<close>

text \<open>\<open>_extract_from_vector\<close>\<close>

definition extract_from_vector ::
  "('raw, 'g, 'ft, 'n) env \<Rightarrow> 'raw \<Rightarrow> string \<Rightarrow> error + pyval" where
  "extract_from_vector env geometry dataset_name =
     then_err (get_dataset_config env dataset_name) (\<lambda>config.
     then_err (parse_geometry env geometry) (\<lambda>geom.
     then_err (config_item config ''asset_id'') (\<lambda>asset.
     let fc = FeatureCollection asset
     in then_err (features_first env (FilterBounds fc geom)) (\<lambda>feature.
     case feature of
       None \<Rightarrow> Inr PNone
     | Some ft \<Rightarrow>
         then_err (config_item config ''field'') (\<lambda>field.
         then_err (feature_get env ft field) (\<lambda>v.
         then_err (ee_to_float env v) (\<lambda>v.
         case v of
           None \<Rightarrow> Inr PNone
         | Some x \<Rightarrow>
             then_err (if ''scale_factor'' \<in> dom config
                       then then_err (config_item config ''scale_factor'') (float_mul x)
                       else Inr x) (\<lambda>x.
             if ''post_process'' \<in> dom config
             then then_err (config_item config ''post_process'') (apply_post_process (PFloat x))
             else Inr (PFloat x)))))))))"

section \<open>Public API\<close>

text \<open>\<open>year or 2024\<close>\<close>

definition year_or_2024 :: "int option \<Rightarrow> int" where
  "year_or_2024 year = (case year of None \<Rightarrow> 2024 | Some y \<Rightarrow> if y \<noteq> 0 then y else 2024)"

definition get_rainfall ::
  "('raw, 'g, 'ft, 'n) env \<Rightarrow> 'raw \<Rightarrow> int option \<Rightarrow> error + pyval" where
  "get_rainfall env geometry year =
     then_err (extract_from_raster env geometry ''rainfall'' (Some (year_or_2024 year))) (\<lambda>v.
       if v \<noteq> PNone then py_int_round v else Inr PNone)"

definition get_temperature ::
  "('raw, 'g, 'ft, 'n) env \<Rightarrow> 'raw \<Rightarrow> int option \<Rightarrow> error + pyval" where
  "get_temperature env geometry year =
     then_err (extract_from_raster env geometry ''temperature'' (Some (year_or_2024 year))) (\<lambda>v.
       if v \<noteq> PNone then py_int_round v else Inr PNone)"

text \<open>The \<open>year\<close> argument of the next three functions is accepted and not used.\<close>

definition get_elevation ::
  "('raw, 'g, 'ft, 'n) env \<Rightarrow> 'raw \<Rightarrow> int option \<Rightarrow> error + pyval" where
  "get_elevation env geometry year =
     then_err (extract_from_raster env geometry ''elevation'' None) (\<lambda>v.
       if v \<noteq> PNone then py_int_round v else Inr PNone)"

definition get_ph ::
  "('raw, 'g, 'ft, 'n) env \<Rightarrow> 'raw \<Rightarrow> int option \<Rightarrow> error + pyval" where
  "get_ph env geometry year =
     then_err (extract_from_raster env geometry ''soil_ph'' None) (\<lambda>v.
       if v \<noteq> PNone
       then then_err (py_float (float_of_str env) v) (\<lambda>r. py_round_n 1 (PFloat r))
       else Inr PNone)"

definition get_slope ::
  "('raw, 'g, 'ft, 'n) env \<Rightarrow> 'raw \<Rightarrow> int option \<Rightarrow> error + pyval" where
  "get_slope env geometry year =
     then_err (parse_geometry env geometry) (\<lambda>geom.
     then_err (get_dataset_config env ''dem'') (\<lambda>config.
     then_err (config_item config ''asset_id'') (\<lambda>asset.
     then_err (config_item config ''band'') (\<lambda>band.
     let dem = Image_select (EE_Image asset) band;
         slope_img = Terrain_slope dem
     in then_err (config_item config ''scale'') (\<lambda>scale.
     then_err (dictionary_get env (ReduceRegion slope_img Reducer_mean geom scale 1000000000)
                 (PStr ''slope'')) (\<lambda>stat.
     then_err (ee_to_float env stat) (\<lambda>v.
     case v of None \<Rightarrow> Inr PNone | Some x \<Rightarrow> py_round_n 1 (PFloat x))))))))"

subsection \<open>Soil texture\<close>

text \<open>What \<open>get_texture\<close> prints.\<close>

datatype log_line = Warning_could_not_extract_soil_texture error

text \<open>The body of the \<open>try\<close> block of \<open>get_texture\<close>.\<close>

definition texture_from_vector ::
  "('raw, 'g, 'ft, 'n) env \<Rightarrow> config \<Rightarrow> 'raw \<Rightarrow> error + pyval" where
  "texture_from_vector env config geometry =
     then_err (parse_geometry env geometry) (\<lambda>geom.
     then_err (config_item config ''asset_id'') (\<lambda>asset.
     let fc = FeatureCollection asset
     in then_err (features_first env (FilterBounds fc geom)) (\<lambda>feature.
     case feature of
       None \<Rightarrow> Inr PNone
     | Some ft \<Rightarrow>
         then_err (config_item config ''field'') (\<lambda>field.
         then_err (feature_get env ft field) (\<lambda>v.
         case v of Computed n \<Rightarrow> getInfo env n | Local p \<Rightarrow> Inr p)))))"

text \<open>\<open>get_texture\<close>: the value returned or the exception raised, and the lines printed.\<close>

definition get_texture ::
  "('raw, 'g, 'ft, 'n) env \<Rightarrow> 'raw \<Rightarrow> int option \<Rightarrow> (error + pyval) \<times> log_line list" where
  "get_texture env geometry year =
     (case get_dataset_config env ''soil_texture'' of
        Inl e \<Rightarrow> (Inl e, [])
      | Inr config \<Rightarrow>
          (case config_item config ''type'' of
             Inl e \<Rightarrow> (Inl e, [])
           | Inr ty \<Rightarrow>
               if ty = PStr ''raster''
               then (extract_from_raster env geometry ''soil_texture'' year, [])
               else
                 (case texture_from_vector env config geometry of
                    Inr v \<Rightarrow> (Inr v, [])
                  | Inl e \<Rightarrow> (Inr PNone, [Warning_could_not_extract_soil_texture e]))))"

text \<open>\<open>isinstance(x, (int, float))\<close>; a boolean is an \<open>int\<close> in Python.\<close>

fun is_int_or_float :: "pyval \<Rightarrow> bool" where
  "is_int_or_float (PInt i) = True"
| "is_int_or_float (PFloat r) = True"
| "is_int_or_float (PBool b) = True"
| "is_int_or_float v = False"

definition get_texture_id ::
  "('raw, 'g, 'ft, 'n) env \<Rightarrow> 'raw \<Rightarrow> int option \<Rightarrow> (error + int option) \<times> log_line list" where
  "get_texture_id env geometry year =
     (case get_texture env geometry year of
        (r, printed) \<Rightarrow>
          (then_err r (\<lambda>texture_value.
             if texture_value = PNone then Inr None
             else if is_int_or_float texture_value then Inr None
             else
               (case normalize_texture_name (repr_float env) texture_value of
                  None \<Rightarrow> Inr None
                | Some norm_name \<Rightarrow> Inr (TEXTURE_MAP env norm_name))),
           printed))"

subsection \<open>Centroid\<close>

text \<open>\<open>coords[i]\<close>\<close>

definition list_item :: "'a list \<Rightarrow> nat \<Rightarrow> error + 'a" where
  "list_item xs i = (if i < length xs then Inr (xs ! i) else Inl IndexError)"

definition get_centroid_lat_lon ::
  "('raw, 'g, 'ft, 'n) env \<Rightarrow> 'raw \<Rightarrow> error + real \<times> real" where
  "get_centroid_lat_lon env geometry =
     then_err (parse_geometry env geometry) (\<lambda>geom.
     then_err (centroid_coordinates env geom) (\<lambda>coords.
     then_err (list_item coords 0) (\<lambda>c0.
     then_err (py_float (float_of_str env) c0) (\<lambda>lon.
     then_err (list_item coords 1) (\<lambda>c1.
     then_err (py_float (float_of_str env) c1) (\<lambda>lat.
     Inr (round_ndigits 6 lat, round_ndigits 6 lon)))))))"

section \<open>Farm profile (\<open>gis/core/farm_profile.py\<close>)\<close>

text \<open>The dictionaries and lists that \<open>build_farm_profile\<close> returns.\<close>

datatype 'raw profile_value =
    Scalar pyval
  | Geometry 'raw
  | Items "'raw profile_value list"
  | Dict "(string \<times> 'raw profile_value) list"

text \<open>The loop over \<open>years\<close>: one rainfall entry per year, in order.\<close>

fun annual_rainfall ::
  "('raw, 'g, 'ft, 'n) env \<Rightarrow> 'raw \<Rightarrow> int list \<Rightarrow> error + 'raw profile_value list" where
  "annual_rainfall env geom_raw [] = Inr []"
| "annual_rainfall env geom_raw (y # years) =
     then_err (get_rainfall env geom_raw (Some y)) (\<lambda>v.
     then_err (annual_rainfall env geom_raw years) (\<lambda>rest.
     Inr (Dict [(''year'', Scalar (PInt y)), (''rainfall_mm'', Scalar v)] # rest)))"

definition build_farm_profile ::
  "('raw, 'g, 'ft, 'n) env \<Rightarrow> string \<Rightarrow> 'raw \<Rightarrow> int list \<Rightarrow> error + (string \<times> 'raw profile_value) list" where
  "build_farm_profile env farm_id geom_raw years =
     then_err (parse_geometry env geom_raw) (\<lambda>geom.
     then_err (annual_rainfall env geom_raw years) (\<lambda>rainfall.
     Inr [(''farm_id'', Scalar (PStr farm_id)),
          (''geometry'', Geometry geom_raw),
          (''rainfall'', Items rainfall)]))"

section \<open>The transform pipeline as the specification words it\<close>

text \<open>The numeric value of a configured operand or of an extracted value.\<close>

fun number_value :: "pyval \<Rightarrow> real" where
  "number_value (PFloat r) = r"
| "number_value (PInt i) = of_int i"
| "number_value (PBool b) = (if b then 1 else 0)"
| "number_value v = 0"

definition number_or_absent :: "pyval option \<Rightarrow> bool" where
  "number_or_absent p = (case p of None \<Rightarrow> True | Some k \<Rightarrow> is_int_or_float k)"

text \<open>The transform parameters of a configuration are numbers where they are present.\<close>

definition numeric_transforms :: "config \<Rightarrow> bool" where
  "numeric_transforms config =
     (number_or_absent (config ''scale_factor'') \<and>
      number_or_absent (config ''offset'') \<and>
      number_or_absent (config ''bias_correction''))"

text \<open>The four steps: each one is the identity when its parameter is absent.\<close>

definition scaled :: "config \<Rightarrow> real \<Rightarrow> real" where
  "scaled config x = (case config ''scale_factor'' of None \<Rightarrow> x | Some k \<Rightarrow> x * number_value k)"

definition offset_added :: "config \<Rightarrow> real \<Rightarrow> real" where
  "offset_added config x = (case config ''offset'' of None \<Rightarrow> x | Some k \<Rightarrow> x + number_value k)"

definition bias_corrected :: "config \<Rightarrow> real \<Rightarrow> real" where
  "bias_corrected config x =
     (case config ''bias_correction'' of None \<Rightarrow> x | Some k \<Rightarrow> x + number_value k)"

definition rounding_rule :: "pyval \<Rightarrow> real \<Rightarrow> pyval" where
  "rounding_rule rule x =
     (case map_of
        [(PStr ''round_int'', PInt (round_half_even x)),
         (PStr ''round_1dp'', PFloat (round_ndigits 1 x)),
         (PStr ''round_2dp'', PFloat (round_ndigits 2 x)),
         (PStr ''round_3dp'', PFloat (round_ndigits 3 x))] rule of
        None \<Rightarrow> PFloat x
      | Some v \<Rightarrow> v)"

definition post_processed :: "config \<Rightarrow> real \<Rightarrow> pyval" where
  "post_processed config x =
     (case config ''post_process'' of None \<Rightarrow> PFloat x | Some rule \<Rightarrow> rounding_rule rule x)"

text \<open>Raster sources: scale, then offset, then bias correction, then rounding.\<close>

definition raster_pipeline :: "config \<Rightarrow> real \<Rightarrow> pyval" where
  "raster_pipeline config =
     post_processed config \<circ> bias_corrected config \<circ> offset_added config \<circ> scaled config"

text \<open>Vector sources: scale, then rounding.\<close>

definition vector_pipeline :: "config \<Rightarrow> real \<Rightarrow> pyval" where
  "vector_pipeline config = post_processed config \<circ> scaled config"


definition non_temporal_image :: "pyval \<Rightarrow> pyval \<Rightarrow> ee_image" where
  "non_temporal_image asset band = Image_select (EE_Image asset) band"

section \<open>An example environment\<close>

text \<open>
  A small environment on which the functions can be evaluated. The configuration entries
  and the answers of the remote service are examples; they are not the contents of
  \<open>config/settings.py\<close>. A raw geometry is a point \<open>(lat, lon)\<close>, a parsed one is
  \<open>(lon, lat)\<close>. The service raises for a point west of Greenwich, has no data north of
  the equator, and answers otherwise.
\<close>

definition example_rainfall :: "(string \<times> pyval) list" where
  "example_rainfall =
     [(''asset_id'', PStr ''UCSB-CHG/CHIRPS/DAILY''), (''band'', PStr ''precipitation''),
      (''scale'', PInt 5566), (''reducer'', PStr ''sum''), (''temporal'', PBool True),
      (''type'', PStr ''raster''), (''post_process'', PStr ''round_1dp'')]"

definition example_temperature :: "(string \<times> pyval) list" where
  "example_temperature =
     [(''asset_id'', PStr ''MODIS/061/MOD11A2''), (''band'', PStr ''LST_Day_1km''),
      (''scale'', PInt 1000), (''reducer'', PStr ''mean''), (''temporal'', PBool True),
      (''type'', PStr ''raster''), (''scale_factor'', PFloat (2 / 100)),
      (''offset'', PFloat (- 27315 / 100)), (''bias_correction'', PFloat (- 443 / 100)),
      (''post_process'', PStr ''round_2dp'')]"

definition example_elevation :: "(string \<times> pyval) list" where
  "example_elevation =
     [(''asset_id'', PStr ''USGS/SRTMGL1_003''), (''band'', PStr ''elevation''),
      (''scale'', PInt 30), (''type'', PStr ''raster'')]"

definition example_soil_ph :: "(string \<times> pyval) list" where
  "example_soil_ph =
     [(''asset_id'', PStr ''OpenLandMap/SOL/SOL_PH-H2O_USDA-4C1A2A_M/v02''),
      (''band'', PStr ''b0''), (''scale'', PInt 250), (''type'', PStr ''raster''),
      (''scale_factor'', PFloat (1 / 10))]"

definition example_soil_texture :: "string \<Rightarrow> (string \<times> pyval) list" where
  "example_soil_texture texture_type =
     [(''asset_id'', PStr ''projects/example/soil_texture''), (''band'', PStr ''b0''),
      (''field'', PStr ''texture''), (''scale'', PInt 250), (''type'', PStr texture_type),
      (''scale_factor'', PInt 2), (''offset'', PInt 1000),
      (''post_process'', PStr ''round_int'')]"

definition example_datasets :: "string \<Rightarrow> (string \<times> (string \<times> pyval) list) list" where
  "example_datasets texture_type =
     [(''rainfall'', example_rainfall),
      (''temperature'', example_temperature),
      (''elevation'', example_elevation),
      (''soil_ph'', example_soil_ph),
      (''dem'', example_elevation),
      (''soil_texture'', example_soil_texture texture_type)]"

definition example_config :: "string \<Rightarrow> string \<Rightarrow> error + config" where
  "example_config texture_type name =
     (case map_of (example_datasets texture_type) name of
        None \<Rightarrow> Inl ValueError
      | Some items \<Rightarrow> Inr (map_of items))"

definition example_parse :: "real \<times> real \<Rightarrow> error + real \<times> real" where
  "example_parse p =
     (case p of (lat, lon) \<Rightarrow>
        if - 90 \<le> lat \<and> lat \<le> 90 \<and> - 180 \<le> lon \<and> lon \<le> 180 then Inr (lon, lat)
        else Inl ValueError)"

definition example_statistic :: "ee_image \<Rightarrow> pyval" where
  "example_statistic img =
     (case img of
        Collection_sum c \<Rightarrow> PFloat (183465 / 100)
      | Collection_mean c \<Rightarrow> PInt 15013
      | Terrain_slope d \<Rightarrow> PFloat (725 / 100)
      | Image_select i b \<Rightarrow> PFloat (4125 / 10)
      | EE_Image a \<Rightarrow> PNone)"

definition example_dictionary_get ::
  "(real \<times> real) ee_dictionary \<Rightarrow> pyval \<Rightarrow> error + pyval eeval" where
  "example_dictionary_get d key =
     (case d of ReduceRegion img red geom scale max_pixels \<Rightarrow>
        if fst geom < 0 then Inl (EEException ''service unreachable'')
        else if 0 < snd geom then Inr (Computed PNone)
        else Inr (Computed (example_statistic img)))"

definition example_first :: "(real \<times> real) ee_features \<Rightarrow> error + string option" where
  "example_first fc =
     (case fc of
        FilterBounds c geom \<Rightarrow>
          if fst geom < 0 then Inl (EEException ''service unreachable'')
          else if 0 < snd geom then Inr None
          else Inr (Some ''feature 17'')
      | FeatureCollection a \<Rightarrow> Inr (Some ''feature 0''))"

definition example_feature_get :: "string \<Rightarrow> pyval \<Rightarrow> error + pyval eeval" where
  "example_feature_get ft field =
     (if field = PStr ''texture'' then Inr (Computed (PStr ''Silty Clay, Clay''))
      else if field = PStr ''depth'' then Inr (Computed (PFloat (25 / 4)))
      else Inr (Local PNone))"

definition example_centroid :: "real \<times> real \<Rightarrow> error + pyval list" where
  "example_centroid geom = Inr [PFloat (fst geom + 1 / 4000000), PFloat (snd geom)]"

definition example_env :: "string \<Rightarrow> (real \<times> real, real \<times> real, string, pyval) env" where
  "example_env texture_type =
     \<lparr> get_dataset_config = example_config texture_type,
       TEXTURE_MAP = map_of [(''sand'', 1), (''loam'', 4), (''clay'', 12)],
       parse_geometry = example_parse,
       dictionary_get = example_dictionary_get,
       features_first = example_first,
       feature_get = example_feature_get,
       getInfo = Inr,
       centroid_coordinates = example_centroid,
       float_of_str = (\<lambda>s. None),
       repr_float = (\<lambda>r. ''0.0'') \<rparr>"

section \<open>Texture normalisation\<close>

lemma is_space_lower_char: "is_space (lower_char c) = is_space c"
  unfolding is_space_def lower_char_def Let_def by auto

lemma py_lower_strip: "py_lower (py_strip s) = py_strip (py_lower s)"
  unfolding py_lower_def py_strip_def
  by (simp add: rev_map dropWhile_map comp_def is_space_lower_char)

lemma fst_py_split: "fst (py_split sep s) = takeWhile (\<lambda>c. c \<noteq> sep) s"
  by (induction s) (auto split: prod.splits)

lemma strip_keeps_head:
  assumes "\<not> P x"
  shows "\<exists>zs. rev (dropWhile P (rev (x # xs))) = x # zs"
proof (cases "\<forall>y\<in>set (rev xs). P y")
  case True
  then show ?thesis using assms by (simp add: dropWhile_append)
next
  case False
  then have "dropWhile P (rev xs @ [x]) = dropWhile P (rev xs) @ [x]"
    by (simp add: dropWhile_append)
  then show ?thesis by simp
qed

lemma dropWhile_py_strip: "dropWhile is_space (py_strip s) = py_strip s"
proof (cases "dropWhile is_space s")
  case Nil
  show ?thesis unfolding py_strip_def Nil by simp
next
  case (Cons x xs)
  then have nx: "\<not> is_space x" by (metis hd_dropWhile list.sel(1) list.distinct(1))
  from strip_keeps_head [of is_space x xs] nx
  obtain zs where "rev (dropWhile is_space (rev (x # xs))) = x # zs"
    by blast
  with Cons nx show ?thesis by (simp add: py_strip_def)
qed

lemma py_strip_idem: "py_strip (py_strip s) = py_strip s"
proof -
  have "py_strip (py_strip s) = rev (dropWhile is_space (rev (py_strip s)))"
    using dropWhile_py_strip [of s] by (simp add: py_strip_def)
  also have "\<dots> = py_strip s" by (simp add: py_strip_def)
  finally show ?thesis .
qed

lemma takeWhile_no_sep: "sep \<notin> set s \<Longrightarrow> takeWhile (\<lambda>c. c \<noteq> sep) s = s"
  by (induction s) auto

text \<open>
  Claim C4. For every input value, \<open>_normalize_texture_name\<close> returns \<open>None\<close> for \<open>None\<close>
  and for text that is empty after trimming; otherwise it lower-cases and trims the text,
  keeps the trimmed text before the first comma, and maps the tokens \<open>organic\<close> and
  \<open>variable\<close> to \<open>None\<close>. The five examples of the specification hold.
\<close>

theorem normalize_texture_name_as_specified:
  "normalize_texture_name repr v =
     normalize_spec (if v = PNone then None else Some (py_str repr v)) \<and>
   normalize_texture_name repr (PStr ''Clay, Clay Loam'') = Some ''clay'' \<and>
   normalize_texture_name repr (PStr ''  Sandy Loam  '') = Some ''sandy loam'' \<and>
   normalize_texture_name repr (PStr ''Organic'') = None \<and>
   normalize_texture_name repr PNone = None \<and>
   normalize_texture_name repr (PStr '''') = None"
proof -
  have general: "normalize_texture_name repr v =
     normalize_spec (if v = PNone then None else Some (py_str repr v))"
  proof (cases "v = PNone")
    case True
    then show ?thesis by (simp add: normalize_texture_name_def normalize_spec_def)
  next
    case False
    define t where "t = py_strip (py_lower (py_str repr v))"
    have t_strip: "py_strip t = t" by (simp add: t_def py_strip_idem)
    have cut: "(if CHR '','' \<in> set t then py_strip (fst (py_split CHR '','' t)) else t) =
               py_strip (takeWhile (\<lambda>c. c \<noteq> CHR '','') t)"
      by (simp add: fst_py_split takeWhile_no_sep t_strip)
    show ?thesis
      using False cut
      by (simp add: normalize_texture_name_def normalize_spec_def py_lower_strip Let_def
                    t_def [symmetric])
  qed
  have e1: "normalize_texture_name repr (PStr ''Clay, Clay Loam'') = Some ''clay''" by code_simp
  have e2: "normalize_texture_name repr (PStr ''  Sandy Loam  '') = Some ''sandy loam''" by code_simp
  have e3: "normalize_texture_name repr (PStr ''Organic'') = None" by code_simp
  have e4: "normalize_texture_name repr PNone = None" by (simp add: normalize_texture_name_def)
  have e5: "normalize_texture_name repr (PStr '''') = None" by code_simp
  from general e1 e2 e3 e4 e5 show ?thesis by blast
qed

theorem normalize_texture_name_witness:
  "normalize_texture_name (\<lambda>r. ''0.0'') (PStr ''Variable, Clay'') = None"
proof -
  have "normalize_spec (Some ''Variable, Clay'') = None" by code_simp
  then show ?thesis
    using normalize_texture_name_as_specified [of "\<lambda>r. ''0.0''" "PStr ''Variable, Clay''"]
    by simp
qed

section \<open>The raster transform pipeline\<close>

lemma then_err_Inr [simp]: "then_err (Inr v) f = f v"
  by (simp add: then_err_def)

lemma then_err_Inl [simp]: "then_err (Inl e) f = Inl e"
  by (simp add: then_err_def)

lemma config_item_Some: "config key = Some v \<Longrightarrow> config_item config key = Inr v"
  by (simp add: config_item_def)

lemma py_number_value: "is_int_or_float k \<Longrightarrow> py_number k = Inr (number_value k)"
  by (cases k) auto

lemma mul_step:
  "number_or_absent (config key) \<Longrightarrow>
   (if key \<in> dom config then then_err (config_item config key) (float_mul x) else Inr x) =
   Inr (case config key of None \<Rightarrow> x | Some k \<Rightarrow> x * number_value k)"
  by (auto simp: number_or_absent_def config_item_def float_mul_def py_number_value
           split: option.splits)

lemma add_step:
  "number_or_absent (config key) \<Longrightarrow>
   (if key \<in> dom config then then_err (config_item config key) (float_add x) else Inr x) =
   Inr (case config key of None \<Rightarrow> x | Some k \<Rightarrow> x + number_value k)"
  by (auto simp: number_or_absent_def config_item_def float_add_def py_number_value
           split: option.splits)

lemma apply_post_process_float:
  "apply_post_process (PFloat x) rule = Inr (rounding_rule rule x)"
  by (simp add: apply_post_process_def rounding_rule_def)

lemma post_step:
  "(if ''post_process'' \<in> dom config
    then then_err (config_item config ''post_process'') (apply_post_process (PFloat x))
    else Inr (PFloat x)) = Inr (post_processed config x)"
  by (auto simp: config_item_def post_processed_def apply_post_process_float
           split: option.splits)

text \<open>
  Claim C1. When the remote reduction yields a value, \<open>_extract_from_raster\<close> returns it
  multiplied by \<open>scale_factor\<close> if present, then with \<open>offset\<close> added if present, then
  with \<open>bias_correction\<close> added if present, then rounded by \<open>post_process\<close> if present;
  when the reduction yields \<open>None\<close> it returns \<open>None\<close>.
\<close>

theorem extract_from_raster_pipeline:
  assumes "get_dataset_config env dataset_name = Inr config"
    and "parse_geometry env geometry = Inr geom"
    and "load_dataset config year = Inr (img, band_name)"
    and "config ''scale'' = Some scale"
    and "dictionary_get env
           (ReduceRegion img (get_reducer (config_get config ''reducer'' (PStr ''mean'')))
              geom scale 1000000000) band_name = Inr stat"
  shows "(\<forall>x. ee_to_float env stat = Inr (Some x) \<and> numeric_transforms config \<longrightarrow>
            extract_from_raster env geometry dataset_name year = Inr (raster_pipeline config x)) \<and>
         (ee_to_float env stat = Inr None \<longrightarrow>
            extract_from_raster env geometry dataset_name year = Inr PNone)"
proof (intro conjI allI impI)
  fix x
  assume h: "ee_to_float env stat = Inr (Some x) \<and> numeric_transforms config"
  then have n: "number_or_absent (config ''scale_factor'')"
    "number_or_absent (config ''offset'')" "number_or_absent (config ''bias_correction'')"
    by (simp_all add: numeric_transforms_def)
  show "extract_from_raster env geometry dataset_name year = Inr (raster_pipeline config x)"
    using assms h
    by (simp add: extract_from_raster_def config_item_Some
          mul_step [of config "''scale_factor''"] add_step [of config "''offset''"]
          add_step [of config "''bias_correction''"] n post_step raster_pipeline_def scaled_def
          offset_added_def bias_corrected_def)
next
  assume "ee_to_float env stat = Inr None"
  with assms show "extract_from_raster env geometry dataset_name year = Inr PNone"
    by (simp add: extract_from_raster_def config_item_Some)
qed


theorem extract_from_raster_pipeline_witness:
  "extract_from_raster (example_env ''vector'') (- 85 / 10, 1255 / 10) ''temperature'' (Some 2024)
     = Inr (PFloat (2268 / 100)) \<and>
   extract_from_raster (example_env ''vector'') (85 / 10, 1255 / 10) ''temperature'' (Some 2024)
     = Inr PNone"
proof -
  let ?env = "example_env ''vector''"
  let ?config = "map_of example_temperature"
  let ?img = "Collection_mean (Collection_select
      (FilterDate (ImageCollection (PStr ''MODIS/061/MOD11A2'')) ''2024-01-01'' ''2024-12-31'')
      (PStr ''LST_Day_1km''))"
  have c: "get_dataset_config ?env ''temperature'' = Inr ?config"
    by (simp add: example_env_def example_config_def example_datasets_def)
  have p1: "parse_geometry ?env (- 85 / 10, 1255 / 10) = Inr (1255 / 10, - 85 / 10)" by code_simp
  have p2: "parse_geometry ?env (85 / 10, 1255 / 10) = Inr (1255 / 10, 85 / 10)" by code_simp
  have l: "load_dataset ?config (Some 2024) = Inr (?img, PStr ''LST_Day_1km'')" by code_simp
  have s: "?config ''scale'' = Some (PInt 1000)" by code_simp
  have d1: "dictionary_get ?env
      (ReduceRegion ?img (get_reducer (config_get ?config ''reducer'' (PStr ''mean'')))
         (1255 / 10, - 85 / 10) (PInt 1000) 1000000000) (PStr ''LST_Day_1km'')
      = Inr (Computed (PInt 15013))" by code_simp
  have d2: "dictionary_get ?env
      (ReduceRegion ?img (get_reducer (config_get ?config ''reducer'' (PStr ''mean'')))
         (1255 / 10, 85 / 10) (PInt 1000) 1000000000) (PStr ''LST_Day_1km'')
      = Inr (Computed PNone)" by code_simp
  have f1: "ee_to_float ?env (Computed (PInt 15013)) = Inr (Some 15013)" by code_simp
  have f2: "ee_to_float ?env (Computed PNone) = Inr None" by code_simp
  have n: "numeric_transforms ?config" by code_simp
  have v: "raster_pipeline ?config 15013 = PFloat (2268 / 100)" by code_simp
  from extract_from_raster_pipeline [OF c p1 l s d1] f1 n v
       extract_from_raster_pipeline [OF c p2 l s d2] f2
  show ?thesis by simp
qed

section \<open>Choice of the image\<close>









text \<open>
  Claim C10. \<open>get_rainfall\<close> and \<open>get_temperature\<close> replace a year that is \<open>None\<close> or 0
  by 2024 before the extraction, and inside \<open>_extract_from_raster\<close> a year that is \<open>None\<close>
  or 0 takes the single-image branch whatever the \<open>temporal\<close> entry says.
\<close>

theorem falsy_year:
  "year_or_2024 None = 2024 \<and> year_or_2024 (Some 0) = 2024 \<and>
   get_rainfall env geometry None = get_rainfall env geometry (Some 2024) \<and>
   get_rainfall env geometry (Some 0) = get_rainfall env geometry (Some 2024) \<and>
   get_temperature env geometry None = get_temperature env geometry (Some 2024) \<and>
   get_temperature env geometry (Some 0) = get_temperature env geometry (Some 2024) \<and>
   get_rainfall env geometry None =
     then_err (extract_from_raster env geometry ''rainfall'' (Some 2024))
       (\<lambda>v. if v \<noteq> PNone then py_int_round v else Inr PNone) \<and>
   get_temperature env geometry None =
     then_err (extract_from_raster env geometry ''temperature'' (Some 2024))
       (\<lambda>v. if v \<noteq> PNone then py_int_round v else Inr PNone) \<and>
   load_dataset config None = single_image config \<and>
   load_dataset config (Some 0) = single_image config \<and>
   single_image config =
     then_err (config_item config ''asset_id'') (\<lambda>asset.
     then_err (config_item config ''band'') (\<lambda>band.
       Inr (non_temporal_image asset band, band))) \<and>
   extract_from_raster env geometry dataset_name (Some 0) =
     extract_from_raster env geometry dataset_name None"
proof -
  have y: "year_or_2024 None = 2024" "year_or_2024 (Some 0) = 2024"
    "year_or_2024 (Some 2024) = 2024"
    by (simp_all add: year_or_2024_def)
  have l: "load_dataset config None = single_image config"
    "load_dataset config (Some 0) = single_image config" for config
    by (simp_all add: load_dataset_def)
  have s: "single_image config =
     then_err (config_item config ''asset_id'') (\<lambda>asset.
     then_err (config_item config ''band'') (\<lambda>band.
       Inr (non_temporal_image asset band, band)))"
    by (simp add: single_image_def non_temporal_image_def then_err_def config_item_def
             split: option.splits)
  have e: "extract_from_raster env geometry dataset_name (Some 0) =
     extract_from_raster env geometry dataset_name None"
    by (simp add: extract_from_raster_def l)
  show ?thesis
    using y l s e by (simp add: get_rainfall_def get_temperature_def)
qed

theorem falsy_year_witness:
  "get_rainfall (example_env ''vector'') (- 85 / 10, 1255 / 10) None = Inr (PInt 1835) \<and>
   get_temperature (example_env ''vector'') (- 85 / 10, 1255 / 10) (Some 0) = Inr (PInt 23) \<and>
   extract_from_raster (example_env ''vector'') (- 85 / 10, 1255 / 10) ''temperature'' (Some 0) =
     Inr (PFloat (- 26933 / 100))"
proof -
  let ?env = "example_env ''vector''"
  have r: "get_rainfall ?env (- 85 / 10, 1255 / 10) (Some 2024) = Inr (PInt 1835)" by code_simp
  have t: "get_temperature ?env (- 85 / 10, 1255 / 10) (Some 2024) = Inr (PInt 23)" by code_simp
  have e: "extract_from_raster ?env (- 85 / 10, 1255 / 10) ''temperature'' None =
     Inr (PFloat (- 26933 / 100))" by code_simp
  from falsy_year [of ?env "(- 85 / 10, 1255 / 10)" "map_of example_temperature" "''temperature''"]
    r t e
  show ?thesis by simp
qed

section \<open>Vector extraction\<close>

lemma ee_to_float_get_dataset_config:
  "ee_to_float (env\<lparr>get_dataset_config := f\<rparr>) v = ee_to_float env v"
  by (simp add: ee_to_float_def cong: if_cong eeval.case_cong)

lemma config_item_other:
  "key \<noteq> ''offset'' \<Longrightarrow> key \<noteq> ''bias_correction'' \<Longrightarrow>
   config_item (config(''offset'' := a, ''bias_correction'' := b)) key = config_item config key"
  by (simp add: config_item_def)

lemma dom_other:
  "key \<noteq> ''offset'' \<Longrightarrow> key \<noteq> ''bias_correction'' \<Longrightarrow>
   key \<in> dom (config(''offset'' := a, ''bias_correction'' := b)) \<longleftrightarrow> key \<in> dom config"
  by (simp add: domIff)

lemma extract_from_vector_ignores_offset_bias:
  assumes "get_dataset_config env dataset_name = Inr config"
  shows "extract_from_vector
           (env\<lparr>get_dataset_config :=
                  \<lambda>n. Inr (config(''offset'' := a, ''bias_correction'' := b))\<rparr>)
           geometry dataset_name =
         extract_from_vector env geometry dataset_name"
  using assms
  by (simp add: extract_from_vector_def config_item_other dom_other
        ee_to_float_get_dataset_config del: fun_upd_apply dom_fun_upd
        cong: if_cong option.case_cong)

text \<open>
  Claim C3. \<open>_extract_from_vector\<close> asks for the first feature of the configured collection
  within the bounds of the geometry and returns \<open>None\<close> when there is none; when the
  configured field of the feature yields a value, the result is that value multiplied by
  \<open>scale_factor\<close> if present and then rounded by \<open>post_process\<close> if present. The entries
  \<open>offset\<close> and \<open>bias_correction\<close> of the configuration have no influence on the result.
\<close>

theorem extract_from_vector_pipeline:
  assumes "get_dataset_config env dataset_name = Inr config"
    and "parse_geometry env geometry = Inr geom"
    and "config ''asset_id'' = Some asset"
  shows "(features_first env (FilterBounds (FeatureCollection asset) geom) = Inr None \<longrightarrow>
            extract_from_vector env geometry dataset_name = Inr PNone) \<and>
         (\<forall>ft field v x.
            features_first env (FilterBounds (FeatureCollection asset) geom) = Inr (Some ft) \<and>
            config ''field'' = Some field \<and> feature_get env ft field = Inr v \<and>
            ee_to_float env v = Inr (Some x) \<and> number_or_absent (config ''scale_factor'') \<longrightarrow>
            extract_from_vector env geometry dataset_name = Inr (vector_pipeline config x)) \<and>
         (\<forall>a b. extract_from_vector
                  (env\<lparr>get_dataset_config :=
                         \<lambda>n. Inr (config(''offset'' := a, ''bias_correction'' := b))\<rparr>)
                  geometry dataset_name =
                extract_from_vector env geometry dataset_name)"
proof (intro conjI allI impI)
  assume "features_first env (FilterBounds (FeatureCollection asset) geom) = Inr None"
  with assms show "extract_from_vector env geometry dataset_name = Inr PNone"
    by (simp add: extract_from_vector_def config_item_Some)
next
  fix ft field v x
  assume h: "features_first env (FilterBounds (FeatureCollection asset) geom) = Inr (Some ft) \<and>
            config ''field'' = Some field \<and> feature_get env ft field = Inr v \<and>
            ee_to_float env v = Inr (Some x) \<and> number_or_absent (config ''scale_factor'')"
  then have n: "number_or_absent (config ''scale_factor'')" by simp
  show "extract_from_vector env geometry dataset_name = Inr (vector_pipeline config x)"
    using assms h
    by (simp add: extract_from_vector_def config_item_Some
          mul_step [of config "''scale_factor''"] n post_step vector_pipeline_def scaled_def)
next
  fix a b
  show "extract_from_vector
          (env\<lparr>get_dataset_config :=
                 \<lambda>n. Inr (config(''offset'' := a, ''bias_correction'' := b))\<rparr>)
          geometry dataset_name =
        extract_from_vector env geometry dataset_name"
    by (rule extract_from_vector_ignores_offset_bias [OF assms(1)])
qed

theorem extract_from_vector_pipeline_witness:
  "extract_from_vector (example_env ''vector'') (85 / 10, 1255 / 10) ''soil_texture'' = Inr PNone \<and>
   extract_from_vector
     (example_env ''vector''
        \<lparr>get_dataset_config :=
           \<lambda>n. Inr ((map_of (example_soil_texture ''vector''))(''field'' \<mapsto> PStr ''depth''))\<rparr>)
     (- 85 / 10, 1255 / 10) ''soil_texture'' = Inr (PInt 12) \<and>
   extract_from_vector
     (example_env ''vector''
        \<lparr>get_dataset_config :=
           \<lambda>n. Inr ((map_of (example_soil_texture ''vector''))
                     (''offset'' := None, ''bias_correction'' \<mapsto> PInt 5))\<rparr>)
     (85 / 10, 1255 / 10) ''soil_texture'' = Inr PNone"
proof -
  let ?env = "example_env ''vector''"
  let ?config = "map_of (example_soil_texture ''vector'')"
  let ?config' = "?config(''field'' \<mapsto> PStr ''depth'')"
  let ?env' = "?env\<lparr>get_dataset_config := \<lambda>n. Inr ?config'\<rparr>"
  let ?asset = "PStr ''projects/example/soil_texture''"
  have c: "get_dataset_config ?env ''soil_texture'' = Inr ?config"
    by (simp add: example_env_def example_config_def example_datasets_def)
  have c': "get_dataset_config ?env' ''soil_texture'' = Inr ?config'" by simp
  have p1: "parse_geometry ?env (85 / 10, 1255 / 10) = Inr (1255 / 10, 85 / 10)" by code_simp
  have p2: "parse_geometry ?env' (- 85 / 10, 1255 / 10) = Inr (1255 / 10, - 85 / 10)" by code_simp
  have a: "?config ''asset_id'' = Some ?asset" by code_simp
  have a': "?config' ''asset_id'' = Some ?asset" by code_simp
  have f1: "features_first ?env (FilterBounds (FeatureCollection ?asset) (1255 / 10, 85 / 10))
      = Inr None" by code_simp
  have f2: "features_first ?env' (FilterBounds (FeatureCollection ?asset) (1255 / 10, - 85 / 10))
      = Inr (Some ''feature 17'')" by code_simp
  have fl: "?config' ''field'' = Some (PStr ''depth'')" by simp
  have g: "feature_get ?env' ''feature 17'' (PStr ''depth'') = Inr (Computed (PFloat (25 / 4)))"
    by code_simp
  have e: "ee_to_float ?env' (Computed (PFloat (25 / 4))) = Inr (Some (25 / 4))" by code_simp
  have n: "number_or_absent (?config' ''scale_factor'')" by code_simp
  have v: "vector_pipeline ?config' (25 / 4) = PInt 12" by code_simp
  note w1 = extract_from_vector_pipeline [OF c p1 a]
  note w2 = extract_from_vector_pipeline [OF c' p2 a']
  from w1 f1 have 1: "extract_from_vector ?env (85 / 10, 1255 / 10) ''soil_texture'' = Inr PNone"
    by blast
  from w2 f2 fl g e n have "extract_from_vector ?env' (- 85 / 10, 1255 / 10) ''soil_texture''
      = Inr (vector_pipeline ?config' (25 / 4))" by blast
  with v have 2: "extract_from_vector ?env' (- 85 / 10, 1255 / 10) ''soil_texture'' = Inr (PInt 12)"
    by simp
  from w1 have "extract_from_vector
     (?env\<lparr>get_dataset_config :=
           \<lambda>n. Inr (?config(''offset'' := None, ''bias_correction'' := Some (PInt 5)))\<rparr>)
     (85 / 10, 1255 / 10) ''soil_texture'' =
     extract_from_vector ?env (85 / 10, 1255 / 10) ''soil_texture''" by blast
  with 1 have 3: "extract_from_vector
     (?env\<lparr>get_dataset_config :=
           \<lambda>n. Inr (?config(''offset'' := None, ''bias_correction'' := Some (PInt 5)))\<rparr>)
     (85 / 10, 1255 / 10) ''soil_texture'' = Inr PNone" by simp
  from 1 2 3 show ?thesis by blast
qed

section \<open>Typed wrappers\<close>

lemma round_half_even_error: "\<bar>of_int (round_half_even x) - x\<bar> \<le> 1 / 2"
proof -
  have "of_int \<lfloor>x\<rfloor> \<le> x" "x < of_int \<lfloor>x\<rfloor> + 1" by linarith+
  then show ?thesis
    by (auto simp: round_half_even_def Let_def)
qed

lemma round_half_even_of_int: "round_half_even (of_int i) = i"
  by (simp add: round_half_even_def)

lemma round_ndigits_error: "\<bar>round_ndigits n x - x\<bar> \<le> 1 / (2 * 10 ^ n)"
proof -
  have p: "(0::real) < 10 ^ n" by simp
  have "round_ndigits n x - x = (of_int (round_half_even (x * 10 ^ n)) - x * 10 ^ n) / 10 ^ n"
    by (simp add: round_ndigits_def diff_divide_distrib)
  then have "\<bar>round_ndigits n x - x\<bar> =
      \<bar>of_int (round_half_even (x * 10 ^ n)) - x * 10 ^ n\<bar> / 10 ^ n"
    by simp
  also have "\<dots> \<le> (1 / 2) / 10 ^ n"
    by (rule divide_right_mono [OF round_half_even_error]) simp
  finally show ?thesis by simp
qed

lemma round_ndigits_decimal: "round_ndigits n x * 10 ^ n = of_int (round_half_even (x * 10 ^ n))"
  by (simp add: round_ndigits_def)

lemma then_err_eq_Inr: "then_err m f = Inr v \<longleftrightarrow> (\<exists>a. m = Inr a \<and> f a = Inr v)"
  by (cases m) simp_all

lemma rounding_rule_kind:
  "(\<exists>i. rounding_rule rule x = PInt i) \<or> (\<exists>r. rounding_rule rule x = PFloat r)"
  by (simp add: rounding_rule_def)

lemma post_processed_kind:
  "(\<exists>i. post_processed config x = PInt i) \<or> (\<exists>r. post_processed config x = PFloat r)"
  using rounding_rule_kind by (simp add: post_processed_def split: option.splits)

lemma then_errE:
  assumes "then_err m f = Inr v"
  obtains a where "m = Inr a" and "f a = Inr v"
  using assms by (cases m) simp_all

text \<open>A raster extraction that returns gives \<open>None\<close>, an integer or a float.\<close>

lemma extract_from_raster_kind:
  assumes "extract_from_raster env geometry dataset_name year = Inr v"
  shows "v = PNone \<or> (\<exists>i. v = PInt i) \<or> (\<exists>r. v = PFloat r)"
proof -
  from assms have "v = PNone \<or> (\<exists>config x. v = post_processed config x)"
    unfolding extract_from_raster_def
    by (auto elim!: then_errE simp: post_step split: option.splits prod.splits) blast
  then show ?thesis using post_processed_kind by metis
qed

lemma int_round_number:
  "v = PInt i \<or> v = PFloat r \<Longrightarrow> py_int_round v = Inr (PInt (round_half_even (number_value v)))"
  by (auto simp: round_half_even_of_int)

lemma float_number:
  "v = PInt i \<or> v = PFloat r \<Longrightarrow> py_float parse v = Inr (number_value v)"
  by auto

lemma rounded_raster:
  assumes "extract_from_raster env geometry dataset_name year = Inr v" and "v \<noteq> PNone"
  shows "py_int_round v = Inr (PInt (round_half_even (number_value v)))"
    and "py_float parse v = Inr (number_value v)"
  using extract_from_raster_kind [OF assms(1)] assms(2) int_round_number float_number
  by blast+

lemma get_slope_value:
  assumes "parse_geometry env geometry = Inr geom"
    and "get_dataset_config env ''dem'' = Inr config"
    and "config ''asset_id'' = Some asset" and "config ''band'' = Some band"
    and "config ''scale'' = Some scale"
    and "dictionary_get env
           (ReduceRegion (Terrain_slope (Image_select (EE_Image asset) band)) Reducer_mean
              geom scale 1000000000) (PStr ''slope'') = Inr stat"
  shows "get_slope env geometry year =
         then_err (ee_to_float env stat)
           (\<lambda>v. case v of None \<Rightarrow> Inr PNone | Some x \<Rightarrow> Inr (PFloat (round_ndigits 1 x)))"
  using assms by (simp add: get_slope_def config_item_Some cong: option.case_cong)

text \<open>
  Claim C6. When the underlying extraction yields a value, \<open>get_rainfall\<close>,
  \<open>get_temperature\<close> and \<open>get_elevation\<close> return an integer, the value rounded to the
  nearest whole unit, the first two extracting for \<open>year or 2024\<close>; \<open>get_ph\<close> and
  \<open>get_slope\<close> return a float, the value rounded to one decimal. All five return \<open>None\<close>
  when the extraction yields \<open>None\<close>. The rounded integer is within one half of the value,
  the rounded float within one twentieth, and ten times the rounded float is whole.
\<close>

theorem typed_wrappers:
  "(\<forall>v. extract_from_raster env geometry ''rainfall'' (Some (year_or_2024 year)) = Inr v \<and>
        v \<noteq> PNone \<longrightarrow>
        get_rainfall env geometry year = Inr (PInt (round_half_even (number_value v)))) \<and>
   (extract_from_raster env geometry ''rainfall'' (Some (year_or_2024 year)) = Inr PNone \<longrightarrow>
        get_rainfall env geometry year = Inr PNone) \<and>
   (\<forall>v. extract_from_raster env geometry ''temperature'' (Some (year_or_2024 year)) = Inr v \<and>
        v \<noteq> PNone \<longrightarrow>
        get_temperature env geometry year = Inr (PInt (round_half_even (number_value v)))) \<and>
   (extract_from_raster env geometry ''temperature'' (Some (year_or_2024 year)) = Inr PNone \<longrightarrow>
        get_temperature env geometry year = Inr PNone) \<and>
   (\<forall>v. extract_from_raster env geometry ''elevation'' None = Inr v \<and> v \<noteq> PNone \<longrightarrow>
        get_elevation env geometry year = Inr (PInt (round_half_even (number_value v)))) \<and>
   (extract_from_raster env geometry ''elevation'' None = Inr PNone \<longrightarrow>
        get_elevation env geometry year = Inr PNone) \<and>
   (\<forall>v. extract_from_raster env geometry ''soil_ph'' None = Inr v \<and> v \<noteq> PNone \<longrightarrow>
        get_ph env geometry year = Inr (PFloat (round_ndigits 1 (number_value v)))) \<and>
   (extract_from_raster env geometry ''soil_ph'' None = Inr PNone \<longrightarrow>
        get_ph env geometry year = Inr PNone) \<and>
   (\<forall>geom config asset band scale stat.
      parse_geometry env geometry = Inr geom \<and> get_dataset_config env ''dem'' = Inr config \<and>
      config ''asset_id'' = Some asset \<and> config ''band'' = Some band \<and>
      config ''scale'' = Some scale \<and>
      dictionary_get env
        (ReduceRegion (Terrain_slope (Image_select (EE_Image asset) band)) Reducer_mean
           geom scale 1000000000) (PStr ''slope'') = Inr stat \<longrightarrow>
      (\<forall>x. ee_to_float env stat = Inr (Some x) \<longrightarrow>
           get_slope env geometry year = Inr (PFloat (round_ndigits 1 x))) \<and>
      (ee_to_float env stat = Inr None \<longrightarrow> get_slope env geometry year = Inr PNone)) \<and>
   \<bar>of_int (round_half_even z) - z\<bar> \<le> 1 / 2 \<and>
   \<bar>round_ndigits 1 z - z\<bar> \<le> 1 / 20 \<and>
   round_ndigits 1 z * 10 = of_int (round_half_even (z * 10))"
proof -
  have rain: "get_rainfall env geometry year = Inr (PInt (round_half_even (number_value v)))"
    if "extract_from_raster env geometry ''rainfall'' (Some (year_or_2024 year)) = Inr v \<and> v \<noteq> PNone"
    for v
    using that rounded_raster(1) [of env geometry "''rainfall''" "Some (year_or_2024 year)" v]
    by (simp add: get_rainfall_def)
  have rain0: "get_rainfall env geometry year = Inr PNone"
    if "extract_from_raster env geometry ''rainfall'' (Some (year_or_2024 year)) = Inr PNone"
    using that by (simp add: get_rainfall_def)
  have temp: "get_temperature env geometry year = Inr (PInt (round_half_even (number_value v)))"
    if "extract_from_raster env geometry ''temperature'' (Some (year_or_2024 year)) = Inr v \<and> v \<noteq> PNone"
    for v
    using that rounded_raster(1) [of env geometry "''temperature''" "Some (year_or_2024 year)" v]
    by (simp add: get_temperature_def)
  have temp0: "get_temperature env geometry year = Inr PNone"
    if "extract_from_raster env geometry ''temperature'' (Some (year_or_2024 year)) = Inr PNone"
    using that by (simp add: get_temperature_def)
  have elev: "get_elevation env geometry year = Inr (PInt (round_half_even (number_value v)))"
    if "extract_from_raster env geometry ''elevation'' None = Inr v \<and> v \<noteq> PNone" for v
    using that rounded_raster(1) [of env geometry "''elevation''" None v]
    by (simp add: get_elevation_def)
  have elev0: "get_elevation env geometry year = Inr PNone"
    if "extract_from_raster env geometry ''elevation'' None = Inr PNone"
    using that by (simp add: get_elevation_def)
  have ph: "get_ph env geometry year = Inr (PFloat (round_ndigits 1 (number_value v)))"
    if "extract_from_raster env geometry ''soil_ph'' None = Inr v \<and> v \<noteq> PNone" for v
    using that rounded_raster(2) [of env geometry "''soil_ph''" None v "float_of_str env"]
    by (simp add: get_ph_def)
  have ph0: "get_ph env geometry year = Inr PNone"
    if "extract_from_raster env geometry ''soil_ph'' None = Inr PNone"
    using that by (simp add: get_ph_def)
  have slope: "(\<forall>x. ee_to_float env stat = Inr (Some x) \<longrightarrow>
           get_slope env geometry year = Inr (PFloat (round_ndigits 1 x))) \<and>
      (ee_to_float env stat = Inr None \<longrightarrow> get_slope env geometry year = Inr PNone)"
    if "parse_geometry env geometry = Inr geom \<and> get_dataset_config env ''dem'' = Inr config \<and>
      config ''asset_id'' = Some asset \<and> config ''band'' = Some band \<and>
      config ''scale'' = Some scale \<and>
      dictionary_get env
        (ReduceRegion (Terrain_slope (Image_select (EE_Image asset) band)) Reducer_mean
           geom scale 1000000000) (PStr ''slope'') = Inr stat"
    for geom config asset band scale stat
  proof -
    from that have a: "parse_geometry env geometry = Inr geom"
      and b: "get_dataset_config env ''dem'' = Inr config"
      and c: "config ''asset_id'' = Some asset" and d: "config ''band'' = Some band"
      and e: "config ''scale'' = Some scale"
      and f: "dictionary_get env
        (ReduceRegion (Terrain_slope (Image_select (EE_Image asset) band)) Reducer_mean
           geom scale 1000000000) (PStr ''slope'') = Inr stat"
      by simp_all
    have "get_slope env geometry year =
         then_err (ee_to_float env stat)
           (\<lambda>v. case v of None \<Rightarrow> Inr PNone | Some x \<Rightarrow> Inr (PFloat (round_ndigits 1 x)))"
      by (rule get_slope_value [OF a b c d e f])
    then show ?thesis by simp
  qed
  have r1: "\<bar>of_int (round_half_even z) - z\<bar> \<le> 1 / 2" by (rule round_half_even_error)
  have r2: "\<bar>round_ndigits 1 z - z\<bar> \<le> 1 / 20" using round_ndigits_error [of 1 z] by simp
  have r3: "round_ndigits 1 z * 10 = of_int (round_half_even (z * 10))"
    using round_ndigits_decimal [of 1 z] by simp
  show ?thesis
    using rain rain0 temp temp0 elev elev0 ph ph0 slope r1 r2 r3 by blast
qed


theorem typed_wrappers_witness:
  "get_rainfall (example_env ''vector'') (- 85 / 10, 1255 / 10) None = Inr (PInt 1835) \<and>
   get_temperature (example_env ''vector'') (- 85 / 10, 1255 / 10) None = Inr (PInt 23) \<and>
   get_elevation (example_env ''vector'') (- 85 / 10, 1255 / 10) None = Inr (PInt 412) \<and>
   get_ph (example_env ''vector'') (- 85 / 10, 1255 / 10) None = Inr (PFloat (412 / 10)) \<and>
   get_slope (example_env ''vector'') (- 85 / 10, 1255 / 10) None = Inr (PFloat (72 / 10)) \<and>
   get_rainfall (example_env ''vector'') (85 / 10, 1255 / 10) None = Inr PNone \<and>
   get_temperature (example_env ''vector'') (85 / 10, 1255 / 10) None = Inr PNone \<and>
   get_elevation (example_env ''vector'') (85 / 10, 1255 / 10) None = Inr PNone \<and>
   get_ph (example_env ''vector'') (85 / 10, 1255 / 10) None = Inr PNone \<and>
   get_slope (example_env ''vector'') (85 / 10, 1255 / 10) None = Inr PNone"
proof -
  let ?env = "example_env ''vector''"
  let ?g = "(- 85 / 10, 1255 / 10) :: real \<times> real"
  let ?h = "(85 / 10, 1255 / 10) :: real \<times> real"
  let ?config = "map_of example_elevation"
  let ?slope = "Terrain_slope (Image_select (EE_Image (PStr ''USGS/SRTMGL1_003'')) (PStr ''elevation''))"
  note w = typed_wrappers [of ?env ?g None 0]
  note n = typed_wrappers [of ?env ?h None 0]
  have y: "year_or_2024 None = 2024" by code_simp
  have r: "extract_from_raster ?env ?g ''rainfall'' (Some 2024) = Inr (PFloat (18346 / 10))"
    "PFloat (18346 / 10) \<noteq> PNone"
    "round_half_even (number_value (PFloat (18346 / 10))) = 1835" by code_simp+
  have t: "extract_from_raster ?env ?g ''temperature'' (Some 2024) = Inr (PFloat (2268 / 100))"
    "PFloat (2268 / 100) \<noteq> PNone"
    "round_half_even (number_value (PFloat (2268 / 100))) = 23" by code_simp+
  have e: "extract_from_raster ?env ?g ''elevation'' None = Inr (PFloat (4125 / 10))"
    "PFloat (4125 / 10) \<noteq> PNone"
    "round_half_even (number_value (PFloat (4125 / 10))) = 412" by code_simp+
  have p: "extract_from_raster ?env ?g ''soil_ph'' None = Inr (PFloat (4125 / 100))"
    "PFloat (4125 / 100) \<noteq> PNone"
    "round_ndigits 1 (number_value (PFloat (4125 / 100))) = 412 / 10" by code_simp+
  have c: "get_dataset_config ?env ''dem'' = Inr ?config"
    by (simp add: example_env_def example_config_def example_datasets_def)
  have k: "?config ''asset_id'' = Some (PStr ''USGS/SRTMGL1_003'')"
    "?config ''band'' = Some (PStr ''elevation'')" "?config ''scale'' = Some (PInt 30)"
    by code_simp+
  have s: "parse_geometry ?env ?g = Inr (1255 / 10, - 85 / 10)"
    "dictionary_get ?env (ReduceRegion ?slope Reducer_mean (1255 / 10, - 85 / 10) (PInt 30) 1000000000)
       (PStr ''slope'') = Inr (Computed (PFloat (725 / 100)))"
    "ee_to_float ?env (Computed (PFloat (725 / 100))) = Inr (Some (725 / 100))"
    "round_ndigits 1 (725 / 100) = 72 / 10" by code_simp+
  have r0: "extract_from_raster ?env ?h ''rainfall'' (Some 2024) = Inr PNone" by code_simp
  have t0: "extract_from_raster ?env ?h ''temperature'' (Some 2024) = Inr PNone" by code_simp
  have e0: "extract_from_raster ?env ?h ''elevation'' None = Inr PNone" by code_simp
  have p0: "extract_from_raster ?env ?h ''soil_ph'' None = Inr PNone" by code_simp
  have s0: "parse_geometry ?env ?h = Inr (1255 / 10, 85 / 10)"
    "dictionary_get ?env (ReduceRegion ?slope Reducer_mean (1255 / 10, 85 / 10) (PInt 30) 1000000000)
       (PStr ''slope'') = Inr (Computed PNone)"
    "ee_to_float ?env (Computed PNone) = Inr None" by code_simp+
  have 1: "get_rainfall ?env ?g None = Inr (PInt 1835)" using w y r by simp
  have 2: "get_temperature ?env ?g None = Inr (PInt 23)" using w y t by simp
  have 3: "get_elevation ?env ?g None = Inr (PInt 412)" using w e by simp
  have 4: "get_ph ?env ?g None = Inr (PFloat (412 / 10))" using w p by simp
  have "get_slope ?env ?g None = Inr (PFloat (round_ndigits 1 (725 / 100)))"
    using w c k s(1,2,3) by blast
  then have 5: "get_slope ?env ?g None = Inr (PFloat (72 / 10))" using s(4) by simp
  have 6: "get_rainfall ?env ?h None = Inr PNone" using n y r0 by simp
  have 7: "get_temperature ?env ?h None = Inr PNone" using n y t0 by simp
  have 8: "get_elevation ?env ?h None = Inr PNone" using n e0 by simp
  have 9: "get_ph ?env ?h None = Inr PNone" using n p0 by simp
  have 10: "get_slope ?env ?h None = Inr PNone" using n c k s0 by blast
  from 1 2 3 4 5 6 7 8 9 10 show ?thesis by blast
qed

section \<open>Centroid\<close>

text \<open>
  Claim C7. \<open>get_centroid_lat_lon\<close> reads the coordinates of the centroid as longitude
  first and latitude second, returns the pair latitude first and longitude second, and
  rounds each to six decimals.
\<close>

theorem centroid_lat_lon:
  assumes "parse_geometry env geometry = Inr geom"
    and "centroid_coordinates env geom = Inr (c0 # c1 # others)"
    and "py_float (float_of_str env) c0 = Inr lon"
    and "py_float (float_of_str env) c1 = Inr lat"
  shows "get_centroid_lat_lon env geometry = Inr (round_ndigits 6 lat, round_ndigits 6 lon) \<and>
         \<bar>round_ndigits 6 lat - lat\<bar> \<le> 1 / 2000000 \<and>
         \<bar>round_ndigits 6 lon - lon\<bar> \<le> 1 / 2000000 \<and>
         round_ndigits 6 lat * 1000000 = of_int (round_half_even (lat * 1000000)) \<and>
         round_ndigits 6 lon * 1000000 = of_int (round_half_even (lon * 1000000))"
proof -
  have "get_centroid_lat_lon env geometry = Inr (round_ndigits 6 lat, round_ndigits 6 lon)"
    using assms by (simp add: get_centroid_lat_lon_def list_item_def)
  moreover have "\<bar>round_ndigits 6 lat - lat\<bar> \<le> 1 / 2000000"
    using round_ndigits_error [of 6 lat] by simp
  moreover have "\<bar>round_ndigits 6 lon - lon\<bar> \<le> 1 / 2000000"
    using round_ndigits_error [of 6 lon] by simp
  moreover have "round_ndigits 6 lat * 1000000 = of_int (round_half_even (lat * 1000000))"
    using round_ndigits_decimal [of 6 lat] by simp
  moreover have "round_ndigits 6 lon * 1000000 = of_int (round_half_even (lon * 1000000))"
    using round_ndigits_decimal [of 6 lon] by simp
  ultimately show ?thesis by blast
qed

theorem centroid_lat_lon_witness:
  "get_centroid_lat_lon (example_env ''vector'') (- 85 / 10, 1255 / 10) = Inr (- 85 / 10, 1255 / 10)"
proof -
  let ?env = "example_env ''vector''"
  have p: "parse_geometry ?env (- 85 / 10, 1255 / 10) = Inr (1255 / 10, - 85 / 10)" by code_simp
  have c: "centroid_coordinates ?env (1255 / 10, - 85 / 10) =
      Inr (PFloat (1255 / 10 + 1 / 4000000) # PFloat (- 85 / 10) # [])" by code_simp
  have f0: "py_float (float_of_str ?env) (PFloat (1255 / 10 + 1 / 4000000)) =
      Inr (1255 / 10 + 1 / 4000000)" by simp
  have f1: "py_float (float_of_str ?env) (PFloat (- 85 / 10)) = Inr (- 85 / 10)" by simp
  have r: "round_ndigits 6 (- 85 / 10) = - 85 / 10"
    "round_ndigits 6 (1255 / 10 + 1 / 4000000) = 1255 / 10" by code_simp+
  from centroid_lat_lon [OF p c f0 f1] r show ?thesis by simp
qed

section \<open>Soil texture\<close>

lemma get_texture_raster:
  assumes "get_dataset_config env ''soil_texture'' = Inr config"
    and "config ''type'' = Some (PStr ''raster'')"
  shows "get_texture env geometry year =
         (extract_from_raster env geometry ''soil_texture'' year, [])"
  using assms by (simp add: get_texture_def config_item_Some)

lemma get_texture_vector:
  assumes "get_dataset_config env ''soil_texture'' = Inr config"
    and "config ''type'' = Some ty" and "ty \<noteq> PStr ''raster''"
  shows "get_texture env geometry year =
         (case texture_from_vector env config geometry of
            Inr v \<Rightarrow> (Inr v, [])
          | Inl e \<Rightarrow> (Inr PNone, [Warning_could_not_extract_soil_texture e]))"
  using assms by (simp add: get_texture_def config_item_Some)

lemma texture_from_vector_remote_error:
  assumes "parse_geometry env geometry = Inr geom" and "config ''asset_id'' = Some asset"
    and "features_first env (FilterBounds (FeatureCollection asset) geom) = Inl e"
  shows "texture_from_vector env config geometry = Inl e"
  using assms by (simp add: texture_from_vector_def config_item_Some)

lemma texture_from_vector_absent:
  assumes "parse_geometry env geometry = Inr geom" and "config ''asset_id'' = Some asset"
    and "features_first env (FilterBounds (FeatureCollection asset) geom) = Inr None"
  shows "texture_from_vector env config geometry = Inr PNone"
  using assms by (simp add: texture_from_vector_def config_item_Some)

text \<open>
  Claim C8, amended. When the configured \<open>soil_texture\<close> dataset is not raster-typed,
  \<open>get_texture\<close> never raises: any exception raised while parsing the geometry, reading
  the configuration entries or querying the collection is caught, a warning is printed and
  \<open>None\<close> is returned, and an absent feature gives \<open>None\<close> with nothing printed. When the
  dataset is raster-typed, \<open>get_texture\<close> returns or raises what \<open>_extract_from_raster\<close>
  returns or raises, and prints nothing.
\<close>

theorem get_texture_leniency:
  assumes "get_dataset_config env ''soil_texture'' = Inr config"
    and "config ''type'' = Some ty"
  shows "(ty \<noteq> PStr ''raster'' \<longrightarrow>
            (\<exists>v. fst (get_texture env geometry year) = Inr v) \<and>
            (\<forall>e. texture_from_vector env config geometry = Inl e \<longrightarrow>
                 get_texture env geometry year =
                   (Inr PNone, [Warning_could_not_extract_soil_texture e])) \<and>
            (\<forall>v. texture_from_vector env config geometry = Inr v \<longrightarrow>
                 get_texture env geometry year = (Inr v, [])) \<and>
            (\<forall>geom asset.
               parse_geometry env geometry = Inr geom \<and> config ''asset_id'' = Some asset \<longrightarrow>
               (\<forall>e. features_first env (FilterBounds (FeatureCollection asset) geom) = Inl e \<longrightarrow>
                    get_texture env geometry year =
                      (Inr PNone, [Warning_could_not_extract_soil_texture e])) \<and>
               (features_first env (FilterBounds (FeatureCollection asset) geom) = Inr None \<longrightarrow>
                    get_texture env geometry year = (Inr PNone, [])))) \<and>
         (ty = PStr ''raster'' \<longrightarrow>
            get_texture env geometry year =
              (extract_from_raster env geometry ''soil_texture'' year, []))"
proof (intro conjI impI allI)
  assume "ty = PStr ''raster''"
  with assms show "get_texture env geometry year =
      (extract_from_raster env geometry ''soil_texture'' year, [])"
    by (simp add: get_texture_raster)
next
  assume t: "ty \<noteq> PStr ''raster''"
  note gv = get_texture_vector [OF assms t, of geometry year]
  show "\<exists>v. fst (get_texture env geometry year) = Inr v"
    by (cases "texture_from_vector env config geometry") (simp_all add: gv)
  show "get_texture env geometry year = (Inr PNone, [Warning_could_not_extract_soil_texture e])"
    if "texture_from_vector env config geometry = Inl e" for e
    using that by (simp add: gv)
  show "get_texture env geometry year = (Inr v, [])"
    if "texture_from_vector env config geometry = Inr v" for v
    using that by (simp add: gv)
  show "get_texture env geometry year = (Inr PNone, [Warning_could_not_extract_soil_texture e])"
    if "parse_geometry env geometry = Inr geom \<and> config ''asset_id'' = Some asset"
      and "features_first env (FilterBounds (FeatureCollection asset) geom) = Inl e"
    for geom asset e
    using that texture_from_vector_remote_error [of env geometry geom config asset e]
    by (simp add: gv)
  show "get_texture env geometry year = (Inr PNone, [])"
    if "parse_geometry env geometry = Inr geom \<and> config ''asset_id'' = Some asset"
      and "features_first env (FilterBounds (FeatureCollection asset) geom) = Inr None"
    for geom asset
    using that texture_from_vector_absent [of env geometry geom config asset]
    by (simp add: gv)
qed

text \<open>
  Claim C8 as stated fails for a raster-typed \<open>soil_texture\<close> dataset: the error of the
  remote query reaches the caller.
\<close>

theorem get_texture_raster_counterexample:
  "get_texture (example_env ''raster'') (- 85 / 10, - 1255 / 10) None =
     (Inl (EEException ''service unreachable''), [])"
  by code_simp

theorem get_texture_leniency_witness:
  "get_texture (example_env ''vector'') (- 85 / 10, - 1255 / 10) None =
     (Inr PNone, [Warning_could_not_extract_soil_texture (EEException ''service unreachable'')]) \<and>
   get_texture (example_env ''vector'') (85 / 10, 1255 / 10) None = (Inr PNone, []) \<and>
   get_texture (example_env ''raster'') (- 85 / 10, 1255 / 10) None = (Inr (PInt 1825), [])"
proof -
  let ?v = "example_env ''vector''"
  let ?r = "example_env ''raster''"
  let ?asset = "PStr ''projects/example/soil_texture''"
  have cv: "get_dataset_config ?v ''soil_texture'' = Inr (map_of (example_soil_texture ''vector''))"
    by (simp add: example_env_def example_config_def example_datasets_def)
  have cr: "get_dataset_config ?r ''soil_texture'' = Inr (map_of (example_soil_texture ''raster''))"
    by (simp add: example_env_def example_config_def example_datasets_def)
  have tv: "map_of (example_soil_texture ''vector'') ''type'' = Some (PStr ''vector'')" by code_simp
  have tr: "map_of (example_soil_texture ''raster'') ''type'' = Some (PStr ''raster'')" by code_simp
  have ne: "PStr ''vector'' \<noteq> PStr ''raster''" by simp
  have a: "map_of (example_soil_texture ''vector'') ''asset_id'' = Some ?asset" by code_simp
  have p1: "parse_geometry ?v (- 85 / 10, - 1255 / 10) = Inr (- 1255 / 10, - 85 / 10)" by code_simp
  have p2: "parse_geometry ?v (85 / 10, 1255 / 10) = Inr (1255 / 10, 85 / 10)" by code_simp
  have f1: "features_first ?v (FilterBounds (FeatureCollection ?asset) (- 1255 / 10, - 85 / 10)) =
      Inl (EEException ''service unreachable'')" by code_simp
  have f2: "features_first ?v (FilterBounds (FeatureCollection ?asset) (1255 / 10, 85 / 10)) =
      Inr None" by code_simp
  have x: "extract_from_raster ?r (- 85 / 10, 1255 / 10) ''soil_texture'' None = Inr (PInt 1825)"
    by code_simp
  from get_texture_leniency [OF cv tv, of "(- 85 / 10, - 1255 / 10)" None] ne p1 a f1
  have 1: "get_texture ?v (- 85 / 10, - 1255 / 10) None =
     (Inr PNone, [Warning_could_not_extract_soil_texture (EEException ''service unreachable'')])"
    by blast
  from get_texture_leniency [OF cv tv, of "(85 / 10, 1255 / 10)" None] ne p2 a f2
  have 2: "get_texture ?v (85 / 10, 1255 / 10) None = (Inr PNone, [])" by blast
  from get_texture_leniency [OF cr tr, of "(- 85 / 10, 1255 / 10)" None] x
  have 3: "get_texture ?r (- 85 / 10, 1255 / 10) None = (Inr (PInt 1825), [])" by simp
  from 1 2 3 show ?thesis by blast
qed

text \<open>
  Claim C5. When the raw texture value is an integer or a float, \<open>get_texture_id\<close>
  returns \<open>None\<close>; when it is not a number and its normalised name is not a key of
  \<open>TEXTURE_MAP\<close>, \<open>get_texture_id\<close> returns \<open>None\<close> as well. A normalised name is
  looked up in \<open>TEXTURE_MAP\<close>.
\<close>

theorem get_texture_id_no_classification:
  assumes "fst (get_texture env geometry year) = Inr v"
  shows "(is_int_or_float v \<longrightarrow> fst (get_texture_id env geometry year) = Inr None) \<and>
         (\<not> is_int_or_float v \<and>
          (\<forall>n. normalize_texture_name (repr_float env) v = Some n \<longrightarrow>
               n \<notin> dom (TEXTURE_MAP env)) \<longrightarrow>
            fst (get_texture_id env geometry year) = Inr None) \<and>
         (\<forall>n. \<not> is_int_or_float v \<and> normalize_texture_name (repr_float env) v = Some n \<longrightarrow>
            fst (get_texture_id env geometry year) = Inr (TEXTURE_MAP env n))"
proof -
  obtain r printed where g: "get_texture env geometry year = (r, printed)"
    by (cases "get_texture env geometry year")
  with assms have r: "r = Inr v" by simp
  have id: "fst (get_texture_id env geometry year) =
      (if v = PNone then Inr None
       else if is_int_or_float v then Inr None
       else (case normalize_texture_name (repr_float env) v of
               None \<Rightarrow> Inr None
             | Some norm_name \<Rightarrow> Inr (TEXTURE_MAP env norm_name)))"
    by (simp add: get_texture_id_def g r)
  have none: "normalize_texture_name (repr_float env) PNone = None"
    by (simp add: normalize_texture_name_def)
  show ?thesis
  proof (intro conjI impI allI)
    assume "is_int_or_float v"
    then show "fst (get_texture_id env geometry year) = Inr None" by (simp add: id)
  next
    assume "\<not> is_int_or_float v \<and>
          (\<forall>n. normalize_texture_name (repr_float env) v = Some n \<longrightarrow>
               n \<notin> dom (TEXTURE_MAP env))"
    then show "fst (get_texture_id env geometry year) = Inr None"
      by (auto simp: id domIff split: option.splits)
  next
    fix n
    assume "\<not> is_int_or_float v \<and> normalize_texture_name (repr_float env) v = Some n"
    then show "fst (get_texture_id env geometry year) = Inr (TEXTURE_MAP env n)"
      using none by (auto simp: id)
  qed
qed

theorem get_texture_id_no_classification_witness:
  "fst (get_texture_id (example_env ''raster'') (- 85 / 10, 1255 / 10) None) = Inr None \<and>
   fst (get_texture_id (example_env ''vector'') (- 85 / 10, 1255 / 10) None) = Inr None"
proof -
  let ?v = "example_env ''vector''"
  let ?r = "example_env ''raster''"
  have gr: "fst (get_texture ?r (- 85 / 10, 1255 / 10) None) = Inr (PInt 1825)" by code_simp
  have gv: "fst (get_texture ?v (- 85 / 10, 1255 / 10) None) = Inr (PStr ''Silty Clay, Clay'')"
    by code_simp
  have n: "normalize_texture_name (repr_float ?v) (PStr ''Silty Clay, Clay'') = Some ''silty clay''"
    by code_simp
  have m: "''silty clay'' \<notin> dom (TEXTURE_MAP ?v)"
    by (simp add: example_env_def domIff)
  from get_texture_id_no_classification [OF gr]
  have 1: "fst (get_texture_id ?r (- 85 / 10, 1255 / 10) None) = Inr None" by simp
  from get_texture_id_no_classification [OF gv] n m
  have 2: "fst (get_texture_id ?v (- 85 / 10, 1255 / 10) None) = Inr None" by simp
  from 1 2 show ?thesis by blast
qed

section \<open>Farm profile\<close>

lemma build_farm_profile_keys:
  "build_farm_profile env farm_id geom_raw years = Inr profile \<Longrightarrow>
   map fst profile = [''farm_id'', ''geometry'', ''rainfall'']"
  by (auto simp: build_farm_profile_def then_err_def split: sum.splits)

text \<open>
  Claim C9 does not hold of \<open>build_farm_profile\<close> as it is in \<open>farm_profile.py\<close>: the
  profile it returns has the three entries \<open>farm_id\<close>, \<open>geometry\<close> and \<open>rainfall\<close>, and
  neither a \<open>coastal\<close> nor a \<open>status\<close> entry.
\<close>

theorem build_farm_profile_rainfall_only:
  "build_farm_profile (example_env ''vector'') ''3'' (- 855 / 100, 12557 / 100) [2024] =
     Inr [(''farm_id'', Scalar (PStr ''3'')),
          (''geometry'', Geometry (- 855 / 100, 12557 / 100)),
          (''rainfall'',
           Items [Dict [(''year'', Scalar (PInt 2024)), (''rainfall_mm'', Scalar (PInt 1835))]])] \<and>
   (case build_farm_profile (example_env ''vector'') ''3'' (- 855 / 100, 12557 / 100) [2024] of
      Inl e \<Rightarrow> False
    | Inr profile \<Rightarrow> map_of profile ''coastal'' = None \<and> map_of profile ''status'' = None)"
  by code_simp

end
